theory Spec2Isabelle
  imports Complex_Main
begin

section \<open>JavaScript numbers\<close>

text \<open>
  The statistical engine of the repository (\<^verbatim>\<open>src/utils/abTestingUtils.ts\<close>) computes with
  JavaScript numbers. A number is modelled as a real or one of the three special values
  of IEEE arithmetic, because the claims below are about where \<^verbatim>\<open>Infinity\<close> and
  \<^verbatim>\<open>NaN\<close> appear. The operations of this section give the exact result on finite
  numbers; the rounding of that result to a double is the separate step \<open>rounded\<close> of
  the next section. There is one zero, the positive one. Every zero the engine divides
  by is \<^verbatim>\<open>+0\<close>: a length, a sum that \<^verbatim>\<open>reduce\<close> starts at \<^verbatim>\<open>0\<close>, a square, or the
  square root of a product that is \<^verbatim>\<open>+0\<close> when it is zero.
\<close>

datatype number = Fin real | PInf | NInf | NaN

fun js_neg :: "number \<Rightarrow> number" where
  "js_neg (Fin x) = Fin (- x)"
| "js_neg PInf = NInf"
| "js_neg NInf = PInf"
| "js_neg NaN = NaN"

text \<open>\<^verbatim>\<open>a + b\<close>: \<^verbatim>\<open>Infinity + -Infinity\<close> is \<^verbatim>\<open>NaN\<close>.\<close>

fun js_add :: "number \<Rightarrow> number \<Rightarrow> number" where
  "js_add (Fin x) (Fin y) = Fin (x + y)"
| "js_add (Fin x) PInf = PInf"
| "js_add (Fin x) NInf = NInf"
| "js_add PInf (Fin y) = PInf"
| "js_add PInf PInf = PInf"
| "js_add PInf NInf = NaN"
| "js_add NInf (Fin y) = NInf"
| "js_add NInf PInf = NaN"
| "js_add NInf NInf = NInf"
| "js_add NaN b = NaN"
| "js_add a NaN = NaN"

definition js_sub :: "number \<Rightarrow> number \<Rightarrow> number" where
  "js_sub a b = js_add a (js_neg b)"

text \<open>\<^verbatim>\<open>a * b\<close>: \<^verbatim>\<open>0 * Infinity\<close> is \<^verbatim>\<open>NaN\<close>; otherwise the signs multiply.\<close>

definition inf_of_sign :: "real \<Rightarrow> number" where
  "inf_of_sign s = (if s = 0 then NaN else if 0 < s then PInf else NInf)"

fun js_mul :: "number \<Rightarrow> number \<Rightarrow> number" where
  "js_mul (Fin x) (Fin y) = Fin (x * y)"
| "js_mul (Fin x) PInf = inf_of_sign x"
| "js_mul (Fin x) NInf = inf_of_sign (- x)"
| "js_mul PInf (Fin y) = inf_of_sign y"
| "js_mul NInf (Fin y) = inf_of_sign (- y)"
| "js_mul PInf PInf = PInf"
| "js_mul PInf NInf = NInf"
| "js_mul NInf PInf = NInf"
| "js_mul NInf NInf = PInf"
| "js_mul NaN b = NaN"
| "js_mul a NaN = NaN"

text \<open>
  \<^verbatim>\<open>a / b\<close>: a finite non-zero number over zero is an infinity of its sign, \<^verbatim>\<open>0 / 0\<close>
  and \<^verbatim>\<open>Infinity / Infinity\<close> are \<^verbatim>\<open>NaN\<close>, a finite number over an infinity is zero.
\<close>

fun js_div :: "number \<Rightarrow> number \<Rightarrow> number" where
  "js_div (Fin x) (Fin y) = (if y = 0 then inf_of_sign x else Fin (x / y))"
| "js_div (Fin x) PInf = Fin 0"
| "js_div (Fin x) NInf = Fin 0"
| "js_div PInf (Fin y) = (if 0 \<le> y then PInf else NInf)"
| "js_div NInf (Fin y) = (if 0 \<le> y then NInf else PInf)"
| "js_div PInf PInf = NaN"
| "js_div PInf NInf = NaN"
| "js_div NInf PInf = NaN"
| "js_div NInf NInf = NaN"
| "js_div NaN b = NaN"
| "js_div a NaN = NaN"

text \<open>Comparisons: every comparison with \<^verbatim>\<open>NaN\<close> is false.\<close>

fun js_lt :: "number \<Rightarrow> number \<Rightarrow> bool" where
  "js_lt (Fin x) (Fin y) = (x < y)"
| "js_lt (Fin x) PInf = True"
| "js_lt NInf (Fin y) = True"
| "js_lt NInf PInf = True"
| "js_lt a b = False"

fun js_le :: "number \<Rightarrow> number \<Rightarrow> bool" where
  "js_le (Fin x) (Fin y) = (x \<le> y)"
| "js_le (Fin x) PInf = True"
| "js_le NInf (Fin y) = True"
| "js_le NInf PInf = True"
| "js_le NInf NInf = True"
| "js_le PInf PInf = True"
| "js_le a b = False"

definition js_gt :: "number \<Rightarrow> number \<Rightarrow> bool" where
  "js_gt a b = js_lt b a"

definition js_ge :: "number \<Rightarrow> number \<Rightarrow> bool" where
  "js_ge a b = js_le b a"

text \<open>\<^verbatim>\<open>Math.sqrt\<close>, \<^verbatim>\<open>Math.abs\<close>, \<^verbatim>\<open>Math.pow(x, 2)\<close> and \<^verbatim>\<open>Math.ceil\<close>.\<close>

fun Math_sqrt :: "number \<Rightarrow> number" where
  "Math_sqrt (Fin x) = (if x < 0 then NaN else Fin (sqrt x))"
| "Math_sqrt PInf = PInf"
| "Math_sqrt NInf = NaN"
| "Math_sqrt NaN = NaN"

fun Math_abs :: "number \<Rightarrow> number" where
  "Math_abs (Fin x) = Fin \<bar>x\<bar>"
| "Math_abs PInf = PInf"
| "Math_abs NInf = PInf"
| "Math_abs NaN = NaN"

fun Math_pow2 :: "number \<Rightarrow> number" where
  "Math_pow2 (Fin x) = Fin (x ^ 2)"
| "Math_pow2 PInf = PInf"
| "Math_pow2 NInf = PInf"
| "Math_pow2 NaN = NaN"

fun Math_ceil :: "number \<Rightarrow> number" where
  "Math_ceil (Fin x) = Fin (of_int \<lceil>x\<rceil>)"
| "Math_ceil PInf = PInf"
| "Math_ceil NInf = NInf"
| "Math_ceil NaN = NaN"

section \<open>Rounding\<close>

text \<open>
  A double operation returns the exact result rounded to a double. The rounding is a
  parameter \<open>rnd\<close>, from the exact real result to the number stored (an infinity on
  overflow). In \<^verbatim>\<open>calculateSampleSize\<close> rounding decides the result: \<^verbatim>\<open>1 + mde\<close> rounds
  to \<^verbatim>\<open>1\<close> for a small \<^verbatim>\<open>mde\<close> and the difference \<^verbatim>\<open>p2 - p1\<close> cancels, so every
  operation of that function is a rounded one. The analyzer and the monitor stay on the
  exact operations: what is proved of them below (which fields are \<^verbatim>\<open>NaN\<close>, which
  formula a field computes, how many checkpoints there are) does not pass through a
  difference of nearly equal numbers.
\<close>

fun rounded :: "(real \<Rightarrow> number) \<Rightarrow> number \<Rightarrow> number" where
  "rounded rnd (Fin x) = rnd x"
| "rounded rnd PInf = PInf"
| "rounded rnd NInf = NInf"
| "rounded rnd NaN = NaN"

definition fl_add :: "(real \<Rightarrow> number) \<Rightarrow> number \<Rightarrow> number \<Rightarrow> number" where
  "fl_add rnd a b = rounded rnd (js_add a b)"

definition fl_sub :: "(real \<Rightarrow> number) \<Rightarrow> number \<Rightarrow> number \<Rightarrow> number" where
  "fl_sub rnd a b = rounded rnd (js_sub a b)"

definition fl_mul :: "(real \<Rightarrow> number) \<Rightarrow> number \<Rightarrow> number \<Rightarrow> number" where
  "fl_mul rnd a b = rounded rnd (js_mul a b)"

definition fl_div :: "(real \<Rightarrow> number) \<Rightarrow> number \<Rightarrow> number \<Rightarrow> number" where
  "fl_div rnd a b = rounded rnd (js_div a b)"

definition fl_pow2 :: "(real \<Rightarrow> number) \<Rightarrow> number \<Rightarrow> number" where
  "fl_pow2 rnd a = rounded rnd (Math_pow2 a)"

section \<open>The jStat library\<close>

text \<open>
  \<^verbatim>\<open>jstat.normal.cdf(x, mean, std)\<close> and \<^verbatim>\<open>jstat.normal.inv(p, mean, std)\<close> belong to
  an external library, not to the repository. They are parameters of the engine: a value
  of the record below stands for the imported module, and every property a theorem needs
  of it is a hypothesis of that theorem.
\<close>

record jstat =
  normal_cdf :: "number \<Rightarrow> number \<Rightarrow> number \<Rightarrow> number"
  normal_inv :: "number \<Rightarrow> number \<Rightarrow> number \<Rightarrow> number"

section \<open>InputValidator and SampleSizeCalculator\<close>

text \<open>
  \<^verbatim>\<open>validateInputs\<close> of \<^verbatim>\<open>src/utils/abTestingUtils.ts\<close>: four checks in the order of
  the source, each with \<^verbatim>\<open><=\<close> and \<^verbatim>\<open>>=\<close>; \<^verbatim>\<open>null\<close> is \<open>None\<close>.
\<close>

definition validateInputs :: "number \<Rightarrow> number \<Rightarrow> number \<Rightarrow> number \<Rightarrow> string option" where
  "validateInputs baselineRate mde confidence power' =
     (if js_le baselineRate (Fin 0) \<or> js_ge baselineRate (Fin 1)
        then Some ''Baseline rate must be between 0 and 1''
      else if js_le mde (Fin 0) \<or> js_ge mde (Fin 1)
        then Some ''Minimum detectable effect must be between 0 and 1''
      else if js_le confidence (Fin (8 / 10)) \<or> js_ge confidence (Fin 1)
        then Some ''Confidence level must be between 0.8 and 1''
      else if js_le power' (Fin (8 / 10)) \<or> js_ge power' (Fin 1)
        then Some ''Statistical power must be between 0.8 and 1''
      else None)"

text \<open>
  The second \<^verbatim>\<open>validateInputs\<close> of the repository (\<^verbatim>\<open>src/unnamed/part_000\<close>, the
  module the older component imports as \<^verbatim>\<open>utils/statistics\<close>): the same order, with
  \<^verbatim>\<open><\<close> and \<^verbatim>\<open>>\<close>, so the bounds themselves pass.
\<close>

definition validateInputs_statistics ::
  "number \<Rightarrow> number \<Rightarrow> number \<Rightarrow> number \<Rightarrow> string option" where
  "validateInputs_statistics val mde confidence power' =
     (if js_lt val (Fin 0) \<or> js_gt val (Fin 1)
        then Some ''Value must be between 0 and 1''
      else if js_lt mde (Fin 0) \<or> js_gt mde (Fin 1)
        then Some ''MDE must be between 0 and 1''
      else if js_lt confidence (Fin (8 / 10)) \<or> js_gt confidence (Fin 1)
        then Some ''Confidence must be between 0.8 and 1''
      else if js_lt power' (Fin (8 / 10)) \<or> js_gt power' (Fin 1)
        then Some ''Power must be between 0.8 and 1''
      else None)"

text \<open>\<^verbatim>\<open>throw new Error(message)\<close> is the left summand of the result.\<close>

datatype error = Error string

text \<open>
  \<^verbatim>\<open>calculateSampleSize\<close> of \<^verbatim>\<open>src/utils/abTestingUtils.ts\<close>, every arithmetic
  operation rounded; \<^verbatim>\<open>Math.ceil\<close> of a double is exact. The message of
  \<^verbatim>\<open>validateInputs\<close> is never the empty string, so \<^verbatim>\<open>if (validationError)\<close> is the
  test for a message. (The parameter \<^verbatim>\<open>power\<close> is written \<open>power'\<close>, the name being
  taken in HOL.)
\<close>

definition calculateSampleSize ::
  "(real \<Rightarrow> number) \<Rightarrow> jstat \<Rightarrow> number \<Rightarrow> number \<Rightarrow> number \<Rightarrow> number \<Rightarrow> error + number" where
  "calculateSampleSize rnd J baselineRate mde confidence power' =
     (case validateInputs baselineRate mde confidence power' of
        Some validationError \<Rightarrow> Inl (Error validationError)
      | None \<Rightarrow>
          (let alpha = fl_sub rnd (Fin 1) confidence;
               zAlpha = normal_inv J (fl_sub rnd (Fin 1) (fl_div rnd alpha (Fin 2))) (Fin 0) (Fin 1);
               zBeta = normal_inv J power' (Fin 0) (Fin 1);
               p1 = baselineRate;
               p2 = fl_mul rnd p1 (fl_add rnd (Fin 1) mde);
               pPooled = fl_div rnd (fl_add rnd p1 p2) (Fin 2);
               sampleSize =
                 fl_div rnd
                   (fl_mul rnd (fl_mul rnd (fl_mul rnd (Fin 2) pPooled) (fl_sub rnd (Fin 1) pPooled))
                      (fl_pow2 rnd (fl_add rnd zAlpha zBeta)))
                   (fl_pow2 rnd (fl_sub rnd p2 p1))
           in Inr (Math_ceil sampleSize)))"

text \<open>
  \<^verbatim>\<open>calculateSampleSize\<close> of the second module (\<^verbatim>\<open>src/unnamed/part_000\<close>): the same
  arithmetic with no validation and no \<^verbatim>\<open>throw\<close>.
\<close>

definition calculateSampleSize_statistics ::
  "(real \<Rightarrow> number) \<Rightarrow> jstat \<Rightarrow> number \<Rightarrow> number \<Rightarrow> number \<Rightarrow> number \<Rightarrow> error + number" where
  "calculateSampleSize_statistics rnd J baselineRate mde confidence power' =
     (let alpha = fl_sub rnd (Fin 1) confidence;
          zAlpha = normal_inv J (fl_sub rnd (Fin 1) (fl_div rnd alpha (Fin 2))) (Fin 0) (Fin 1);
          zBeta = normal_inv J power' (Fin 0) (Fin 1);
          p1 = baselineRate;
          p2 = fl_mul rnd p1 (fl_add rnd (Fin 1) mde);
          pPooled = fl_div rnd (fl_add rnd p1 p2) (Fin 2);
          sampleSize =
            fl_div rnd
              (fl_mul rnd (fl_mul rnd (fl_mul rnd (Fin 2) pPooled) (fl_sub rnd (Fin 1) pPooled))
                 (fl_pow2 rnd (fl_add rnd zAlpha zBeta)))
              (fl_pow2 rnd (fl_sub rnd p2 p1))
      in Inr (Math_ceil sampleSize))"

section \<open>OutcomeAnalyzer\<close>

text \<open>
  \<^verbatim>\<open>data.reduce((sum, val) => sum + val, 0)\<close> is a left fold from \<^verbatim>\<open>0\<close>, and
  \<^verbatim>\<open>data.length\<close> is a number.
\<close>

definition reduce_sum :: "number list \<Rightarrow> number" where
  "reduce_sum xs = foldl js_add (Fin 0) xs"

definition js_length :: "'a list \<Rightarrow> number" where
  "js_length xs = Fin (real (length xs))"

text \<open>The object \<^verbatim>\<open>analyzeResults\<close> returns; an interval is the array \<^verbatim>\<open>[low, high]\<close>.\<close>

record ConfidenceIntervals =
  control :: "number list"
  variant :: "number list"

record TestResults =
  controlRate :: number
  variantRate :: number
  relativeImprovement :: number
  pValue :: number
  significant :: bool
  confidenceIntervals :: ConfidenceIntervals
  conclusion :: string

text \<open>
  \<^verbatim>\<open>analyzeResults\<close> of \<^verbatim>\<open>src/utils/abTestingUtils.ts\<close>. Nothing in it throws, so
  its result is the record itself. The locals \<^verbatim>\<open>pValue\<close>, \<^verbatim>\<open>significant\<close> and
  \<^verbatim>\<open>conclusion\<close> are written \<open>pVal\<close>, \<open>signif\<close> and \<open>concl\<close>, apart from the fields
  of those names.
\<close>

definition analyzeResults :: "jstat \<Rightarrow> number list \<Rightarrow> number list \<Rightarrow> number \<Rightarrow> TestResults" where
  "analyzeResults J controlData variantData confidence =
     (let controlConv = js_div (reduce_sum controlData) (js_length controlData);
          variantConv = js_div (reduce_sum variantData) (js_length variantData);
          n1 = js_length controlData;
          n2 = js_length variantData;
          pPooled = js_div (js_add (reduce_sum controlData) (reduce_sum variantData)) (js_add n1 n2);
          se = Math_sqrt (js_mul (js_mul pPooled (js_sub (Fin 1) pPooled))
                 (js_add (js_div (Fin 1) n1) (js_div (Fin 1) n2)));
          zScore = js_div (js_sub variantConv controlConv) se;
          pVal = js_mul (Fin 2) (js_sub (Fin 1) (normal_cdf J (Math_abs zScore) (Fin 0) (Fin 1)));
          zAlpha = normal_inv J (js_sub (Fin 1) (js_div (js_sub (Fin 1) confidence) (Fin 2)))
                     (Fin 0) (Fin 1);
          ciControl =
            [js_sub controlConv
               (js_mul zAlpha (Math_sqrt (js_div (js_mul controlConv (js_sub (Fin 1) controlConv)) n1))),
             js_add controlConv
               (js_mul zAlpha (Math_sqrt (js_div (js_mul controlConv (js_sub (Fin 1) controlConv)) n1)))];
          ciVariant =
            [js_sub variantConv
               (js_mul zAlpha (Math_sqrt (js_div (js_mul variantConv (js_sub (Fin 1) variantConv)) n2))),
             js_add variantConv
               (js_mul zAlpha (Math_sqrt (js_div (js_mul variantConv (js_sub (Fin 1) variantConv)) n2)))];
          signif = js_lt pVal (js_sub (Fin 1) confidence);
          concl =
            (if signif
             then (if js_gt variantConv controlConv
                   then ''The variant outperformed the control group significantly.''
                   else ''The control group outperformed the variant significantly.'')
             else ''The test results are inconclusive.'')
      in \<lparr>controlRate = controlConv,
          variantRate = variantConv,
          relativeImprovement = js_div (js_sub variantConv controlConv) controlConv,
          pValue = pVal,
          significant = signif,
          confidenceIntervals = \<lparr>control = ciControl, variant = ciVariant\<rparr>,
          conclusion = concl\<rparr>)"

section \<open>SequentialMonitor\<close>

text \<open>
  \<^verbatim>\<open>data.slice(0, end)\<close>: the end is truncated towards zero (\<^verbatim>\<open>NaN\<close> counts as
  \<^verbatim>\<open>0\<close>), a negative end counts from the end of the array, and the result stops at the
  end of the array.
\<close>

fun slice0 :: "'a list \<Rightarrow> number \<Rightarrow> 'a list" where
  "slice0 xs (Fin e) =
     (let r = (if 0 \<le> e then \<lfloor>e\<rfloor> else \<lceil>e\<rceil>)
      in if r < 0 then take (nat (max (int (length xs) + r) 0)) xs else take (nat r) xs)"
| "slice0 xs PInf = xs"
| "slice0 xs NInf = []"
| "slice0 xs NaN = []"

record Checkpoint =
  sampleSize :: number
  pValue' :: number
  relativeImprovement' :: number

text \<open>
  The \<^verbatim>\<open>for\<close> loop of \<^verbatim>\<open>sequentialAnalysis\<close>, with \<^verbatim>\<open>size\<close> and \<^verbatim>\<open>results\<close> as
  its state. Nothing bounds the number of its rounds, so it is a partial function: \<open>None\<close>
  is a call that does not return.
\<close>

partial_function (option) sequentialAnalysis_loop ::
  "jstat \<Rightarrow> number list \<Rightarrow> number list \<Rightarrow> number \<Rightarrow> number \<Rightarrow> number \<Rightarrow> number \<Rightarrow>
   Checkpoint list \<Rightarrow> Checkpoint list option" where
  "sequentialAnalysis_loop J controlData variantData minSampleSize confidence currentSize size' results =
     (if js_le size' currentSize
      then (let controlSample = slice0 controlData size';
                variantSample = slice0 variantData size';
                result = analyzeResults J controlSample variantSample confidence
            in sequentialAnalysis_loop J controlData variantData minSampleSize confidence currentSize
                 (js_add size' minSampleSize)
                 (results @ [\<lparr>sampleSize = size',
                               pValue' = pValue result,
                               relativeImprovement' = relativeImprovement result\<rparr>]))
      else Some results)"

definition sequentialAnalysis ::
  "jstat \<Rightarrow> number list \<Rightarrow> number list \<Rightarrow> number \<Rightarrow> number \<Rightarrow> Checkpoint list option" where
  "sequentialAnalysis J controlData variantData minSampleSize confidence =
     (let currentSize = Fin (real (min (length controlData) (length variantData)))
      in sequentialAnalysis_loop J controlData variantData minSampleSize confidence currentSize
           minSampleSize [])"

section \<open>A computable library instance\<close>

text \<open>
  An instance of the library with a rational distribution in place of the normal one:
  the symmetric distribution with cumulative distribution function
  \<open>1/2 + x / (2 (1 + \<bar>x\<bar>))\<close> and quantile function \<open>y / (1 - \<bar>y\<bar>)\<close> at \<open>y = 2 p - 1\<close>.
  Its values are found by rewriting, which the general theorems below need when they are
  applied to concrete data.
\<close>

definition rational_cdf :: "number \<Rightarrow> number \<Rightarrow> number \<Rightarrow> number" where
  "rational_cdf x mean std =
     (case js_div (js_sub x mean) std of
        Fin z \<Rightarrow> Fin (1 / 2 + z / (2 * (1 + \<bar>z\<bar>)))
      | PInf \<Rightarrow> Fin 1
      | NInf \<Rightarrow> Fin 0
      | NaN \<Rightarrow> NaN)"

definition rational_inv :: "number \<Rightarrow> number \<Rightarrow> number \<Rightarrow> number" where
  "rational_inv p mean std =
     (case p of
        Fin q \<Rightarrow>
          (if 0 < q \<and> q < 1
           then js_add mean (js_mul std (Fin ((2 * q - 1) / (1 - \<bar>2 * q - 1\<bar>))))
           else NaN)
      | PInf \<Rightarrow> NaN
      | NInf \<Rightarrow> NaN
      | NaN \<Rightarrow> NaN)"

definition rational_jstat :: jstat where
  "rational_jstat = \<lparr>normal_cdf = rational_cdf, normal_inv = rational_inv\<rparr>"


section \<open>The quantities of the specification\<close>

text \<open>
  The specification speaks of observation sequences of zeros and ones and of their rates
  as real numbers. These definitions follow its words (sections 3 and 4.3); the theorems
  below compare them with what the code computes on JavaScript numbers.
\<close>

definition binary :: "number list \<Rightarrow> bool" where
  "binary xs = list_all (\<lambda>x. x = Fin 0 \<or> x = Fin 1) xs"

definition successes :: "number list \<Rightarrow> nat" where
  "successes xs = count_list xs (Fin 1)"

definition rate :: "number list \<Rightarrow> real" where
  "rate xs = real (successes xs) / real (length xs)"

definition pooledRate :: "number list \<Rightarrow> number list \<Rightarrow> real" where
  "pooledRate xs ys =
     (real (successes xs) + real (successes ys)) / (real (length xs) + real (length ys))"

definition standardError :: "number list \<Rightarrow> number list \<Rightarrow> real" where
  "standardError xs ys =
     sqrt (pooledRate xs ys * (1 - pooledRate xs ys) * (1 / real (length xs) + 1 / real (length ys)))"


text \<open>The checkpoint the specification expects at the prefixes of length \<open>n\<close>.\<close>

definition checkpoint_at ::
  "jstat \<Rightarrow> number list \<Rightarrow> number list \<Rightarrow> number \<Rightarrow> nat \<Rightarrow> Checkpoint" where
  "checkpoint_at J controlData variantData confidence n =
     \<lparr>sampleSize = Fin (real n),
      pValue' = pValue (analyzeResults J (take n controlData) (take n variantData) confidence),
      relativeImprovement' =
        relativeImprovement (analyzeResults J (take n controlData) (take n variantData) confidence)\<rparr>"


definition cdf_propagates_NaN :: "jstat \<Rightarrow> bool" where
  "cdf_propagates_NaN J = (normal_cdf J NaN (Fin 0) (Fin 1) = NaN)"

definition quantile_function :: "jstat \<Rightarrow> (real \<Rightarrow> real) \<Rightarrow> bool" where
  "quantile_function J Q =
     (\<forall>q. 0 < q \<and> q < 1 \<longrightarrow> normal_inv J (Fin q) (Fin 0) (Fin 1) = Fin (Q q))"


definition rational_quantile :: "real \<Rightarrow> real" where
  "rational_quantile q = (2 * q - 1) / (1 - \<bar>2 * q - 1\<bar>)"

section \<open>Facts about the number operations\<close>

lemma js_add_NaN [simp]: "js_add a NaN = NaN"
  by (cases a) simp_all

lemma js_mul_NaN [simp]: "js_mul a NaN = NaN"
  by (cases a) simp_all

lemma js_div_NaN [simp]: "js_div a NaN = NaN"
  by (cases a) simp_all

lemma js_sub_NaN [simp]: "js_sub a NaN = NaN" "js_sub NaN a = NaN"
  by (simp_all add: js_sub_def)

lemma js_add_commute: "js_add a b = js_add b a"
  by (cases a; cases b) simp_all

lemma js_neg_sub: "js_neg (js_sub a b) = js_sub b a"
  by (cases a; cases b) (simp_all add: js_sub_def)

lemma js_div_neg: "js_div (js_neg a) b = js_neg (js_div a b)"
  by (cases a; cases b) (simp_all add: inf_of_sign_def)

lemma Math_abs_neg: "Math_abs (js_neg a) = Math_abs a"
  by (cases a) simp_all

lemma js_le_add_nonpositive:
  assumes "js_le m (Fin 0)" "js_le sz (Fin n)"
  shows "js_le (js_add sz m) (Fin n)"
  using assms by (cases sz; cases m) auto

lemma slice0_nat: "slice0 xs (Fin (real n)) = take n xs"
  by simp


lemma sqrt_sixteenth: "sqrt (1 / 16) = 1 / 4"
  by (rule real_sqrt_unique) (simp_all add: power2_eq_square)

section \<open>Facts about the library instance\<close>


lemma rational_cdf_propagates_NaN: "cdf_propagates_NaN rational_jstat"
  by (simp add: cdf_propagates_NaN_def rational_jstat_def rational_cdf_def)

lemma rational_quantile_function: "quantile_function rational_jstat rational_quantile"
  by (simp add: quantile_function_def rational_jstat_def rational_inv_def rational_quantile_def)

lemma rational_quantile_pos: "\<forall>q. 1 / 2 < q \<and> q < 1 \<longrightarrow> 0 < rational_quantile q"
  by (auto simp add: rational_quantile_def)

section \<open>Sums and rates of observation sequences\<close>

lemma foldl_js_add_binary:
  "binary xs \<Longrightarrow> foldl js_add (Fin a) xs = Fin (a + real (successes xs))"
  by (induction xs arbitrary: a) (auto simp: binary_def successes_def)

lemma reduce_sum_binary: "binary xs \<Longrightarrow> reduce_sum xs = Fin (real (successes xs))"
  by (simp add: reduce_sum_def foldl_js_add_binary)

lemma successes_le_length: "successes xs \<le> length xs"
  unfolding successes_def by (induction xs) auto

lemma mean_binary:
  assumes "binary xs" "xs \<noteq> []"
  shows "js_div (reduce_sum xs) (js_length xs) = Fin (rate xs)"
  using assms by (simp add: reduce_sum_binary js_length_def rate_def)

lemma rate_bounds: "xs \<noteq> [] \<Longrightarrow> 0 \<le> rate xs \<and> rate xs \<le> 1"
  using successes_le_length [of xs] by (simp add: rate_def)

lemma rate_variance_nonneg: "xs \<noteq> [] \<Longrightarrow> 0 \<le> rate xs * (1 - rate xs) / real (length xs)"
  using rate_bounds [of xs] by simp

lemma lengths_pos: "xs \<noteq> [] \<Longrightarrow> 0 < real (length xs) + real (length ys)"
  by (simp add: add_pos_nonneg)

lemma pooledRate_bounds:
  assumes "xs \<noteq> []"
  shows "0 \<le> pooledRate xs ys" "pooledRate xs ys \<le> 1"
proof -
  show "0 \<le> pooledRate xs ys" by (simp add: pooledRate_def)
  have "real (successes xs) + real (successes ys) \<le> real (length xs) + real (length ys)"
    using successes_le_length [of xs] successes_le_length [of ys] by linarith
  then show "pooledRate xs ys \<le> 1"
    using lengths_pos [OF assms, of ys] by (simp add: pooledRate_def)
qed

lemma pooledRate_0:
  assumes "pooledRate xs ys = 0" "xs \<noteq> []"
  shows "rate xs = 0 \<and> rate ys = 0"
proof -
  from assms(1) lengths_pos [OF assms(2), of ys]
  have "real (successes xs) + real (successes ys) = 0"
    by (simp add: pooledRate_def)
  then have "successes xs = 0 \<and> successes ys = 0"
    by (metis add_is_0 of_nat_0_eq_iff of_nat_add)
  then show ?thesis by (simp add: rate_def)
qed

lemma pooledRate_1:
  assumes "pooledRate xs ys = 1" "xs \<noteq> []" "ys \<noteq> []"
  shows "rate xs = 1 \<and> rate ys = 1"
proof -
  from assms(1) lengths_pos [OF assms(2), of ys]
  have "real (successes xs) + real (successes ys) = real (length xs) + real (length ys)"
    by (simp add: pooledRate_def)
  then have "successes xs + successes ys = length xs + length ys"
    by (metis of_nat_add of_nat_eq_iff)
  with successes_le_length [of xs] successes_le_length [of ys]
  have "successes xs = length xs \<and> successes ys = length ys" by linarith
  with assms(2,3) show ?thesis by (simp add: rate_def)
qed

lemma standardError_0_iff:
  assumes "xs \<noteq> []" "ys \<noteq> []"
  shows "standardError xs ys = 0 \<longleftrightarrow> pooledRate xs ys = 0 \<or> pooledRate xs ys = 1"
proof -
  have "0 < 1 / real (length xs) + 1 / real (length ys)"
    using assms by (simp add: add_pos_pos)
  then show ?thesis by (auto simp add: standardError_def)
qed

text \<open>
  When the standard error is zero both rates are equal, so the z-score of the code is
  \<^verbatim>\<open>0 / 0\<close>.
\<close>

lemma degenerate_zScore:
  assumes "xs \<noteq> []" "ys \<noteq> []" "standardError xs ys = 0"
  shows "js_div (Fin (rate ys - rate xs)) (Fin (standardError xs ys)) = NaN"
proof -
  from assms have "pooledRate xs ys = 0 \<or> pooledRate xs ys = 1"
    by (simp add: standardError_0_iff)
  then have "rate ys = rate xs"
    using pooledRate_0 [of xs ys] pooledRate_1 [of xs ys] assms(1,2) by auto
  with assms(3) show ?thesis by (simp add: inf_of_sign_def)
qed

section \<open>The analyzer on sequences of zeros and ones\<close>

text \<open>
  On two non-empty sequences of zeros and ones every intermediate value of
  \<^verbatim>\<open>analyzeResults\<close> but the z-score is finite: the sums are the numbers of ones, the
  rates their quotients by the lengths, and the arguments of \<^verbatim>\<open>Math.sqrt\<close> are not
  negative. The two divisions that can have a zero divisor stay JavaScript divisions.
\<close>

lemma analyzeResults_binary:
  assumes "binary controlData" "controlData \<noteq> []" "binary variantData" "variantData \<noteq> []"
  shows "analyzeResults J controlData variantData confidence =
    (let c = rate controlData; v = rate variantData;
         n1 = real (length controlData); n2 = real (length variantData);
         zScore = js_div (Fin (v - c)) (Fin (standardError controlData variantData));
         pVal = js_mul (Fin 2) (js_sub (Fin 1) (normal_cdf J (Math_abs zScore) (Fin 0) (Fin 1)));
         zAlpha = normal_inv J (js_sub (Fin 1) (js_div (js_sub (Fin 1) confidence) (Fin 2)))
                    (Fin 0) (Fin 1);
         hc = js_mul zAlpha (Fin (sqrt (c * (1 - c) / n1)));
         hv = js_mul zAlpha (Fin (sqrt (v * (1 - v) / n2)));
         signif = js_lt pVal (js_sub (Fin 1) confidence)
     in \<lparr>controlRate = Fin c, variantRate = Fin v,
         relativeImprovement = js_div (Fin (v - c)) (Fin c),
         pValue = pVal, significant = signif,
         confidenceIntervals = \<lparr>control = [js_sub (Fin c) hc, js_add (Fin c) hc],
                                 variant = [js_sub (Fin v) hv, js_add (Fin v) hv]\<rparr>,
         conclusion =
           (if signif
            then (if c < v
                  then ''The variant outperformed the control group significantly.''
                  else ''The control group outperformed the variant significantly.'')
            else ''The test results are inconclusive.'')\<rparr>)"
proof -
  have mc: "js_div (reduce_sum controlData) (js_length controlData) = Fin (rate controlData)"
    using assms(1,2) by (rule mean_binary)
  have mv: "js_div (reduce_sum variantData) (js_length variantData) = Fin (rate variantData)"
    using assms(3,4) by (rule mean_binary)
  have n0: "real (length controlData) + real (length variantData) \<noteq> 0"
    using lengths_pos [OF assms(2), of variantData] by simp
  have pp: "js_div (js_add (reduce_sum controlData) (reduce_sum variantData))
              (js_add (js_length controlData) (js_length variantData))
            = Fin (pooledRate controlData variantData)"
    using assms n0 by (simp add: reduce_sum_binary js_length_def pooledRate_def)
  have nn: "0 \<le> pooledRate controlData variantData * (1 - pooledRate controlData variantData)
              * (1 / real (length controlData) + 1 / real (length variantData))"
    using pooledRate_bounds [OF assms(2), of variantData] by simp
  have se: "Math_sqrt (js_mul (js_mul (Fin (pooledRate controlData variantData))
               (js_sub (Fin 1) (Fin (pooledRate controlData variantData))))
               (js_add (js_div (Fin 1) (js_length controlData)) (js_div (Fin 1) (js_length variantData))))
            = Fin (standardError controlData variantData)"
    using assms(2,4) nn by (simp add: js_sub_def js_length_def standardError_def)
  have cc: "Math_sqrt (js_div (js_mul (Fin (rate controlData)) (js_sub (Fin 1) (Fin (rate controlData))))
               (js_length controlData))
            = Fin (sqrt (rate controlData * (1 - rate controlData) / real (length controlData)))"
    using assms(2) rate_variance_nonneg [OF assms(2)] by (simp add: js_sub_def js_length_def)
  have cv: "Math_sqrt (js_div (js_mul (Fin (rate variantData)) (js_sub (Fin 1) (Fin (rate variantData))))
               (js_length variantData))
            = Fin (sqrt (rate variantData * (1 - rate variantData) / real (length variantData)))"
    using assms(4) rate_variance_nonneg [OF assms(4)] by (simp add: js_sub_def js_length_def)
  have sub: "js_sub (Fin (rate variantData)) (Fin (rate controlData))
     = Fin (rate variantData - rate controlData)" by (simp add: js_sub_def)
  show ?thesis
    unfolding analyzeResults_def Let_def mc mv pp se cc cv sub
    by (simp add: js_gt_def)
qed

section \<open>The loop of the sequential monitor\<close>

lemma loop_exit:
  assumes "N < n"
  shows "sequentialAnalysis_loop J cs vs m conf (Fin (real N)) (Fin (real n)) acc = Some acc"
  using assms by (subst sequentialAnalysis_loop.simps) simp

lemma loop_step:
  assumes "n \<le> N"
  shows "sequentialAnalysis_loop J cs vs (Fin (real k)) conf (Fin (real N)) (Fin (real n)) acc
     = sequentialAnalysis_loop J cs vs (Fin (real k)) conf (Fin (real N)) (Fin (real (n + k)))
         (acc @ [checkpoint_at J cs vs conf n])"
proof -
  have "js_le (Fin (real n)) (Fin (real N))" using assms by simp
  moreover have "js_add (Fin (real n)) (Fin (real k)) = Fin (real (n + k))" by simp
  ultimately show ?thesis
    by (subst sequentialAnalysis_loop.simps)
       (simp only: if_True Let_def slice0_nat checkpoint_at_def)
qed

text \<open>
  Started at the \<open>i\<close>-th multiple of a positive step, the loop returns, and it has added
  the checkpoints of the multiples from the \<open>i\<close>-th to the last one within \<open>N\<close>. The
  induction is on the number of multiples left.
\<close>

lemma loop_from:
  assumes "0 < k"
  shows "sequentialAnalysis_loop J cs vs (Fin (real k)) conf (Fin (real N)) (Fin (real (i * k))) acc
     = Some (acc @ map (\<lambda>j. checkpoint_at J cs vs conf (j * k)) [i..<N div k + 1])"
proof (induction "N div k + 1 - i" arbitrary: i acc)
  case 0
  then have less: "N div k < i" by simp
  then have "N < i * k" using assms
    by (simp add: div_less_iff_less_mult)
  moreover have "[i..<N div k + 1] = []" using less by simp
  ultimately show ?case
    by (simp only: loop_exit map_append list.map append_Nil2)
next
  case (Suc d)
  then have le: "i \<le> N div k" by simp
  then have b: "i * k \<le> N" using assms
    by (simp add: less_eq_div_iff_mult_less_eq)
  have "d = N div k + 1 - Suc i" using Suc(2) by simp
  then have ih: "sequentialAnalysis_loop J cs vs (Fin (real k)) conf (Fin (real N))
        (Fin (real (Suc i * k))) acc'
      = Some (acc' @ map (\<lambda>j. checkpoint_at J cs vs conf (j * k)) [Suc i..<N div k + 1])" for acc'
    using Suc(1) [of "Suc i" acc'] by simp
  have u: "[i..<N div k + 1] = i # [Suc i..<N div k + 1]"
    using le by (simp add: upt_conv_Cons)
  have n: "i * k + k = Suc i * k" by simp
  show ?case
    by (simp only: loop_step [OF b] n ih u list.map append_Cons append_Nil append_assoc)
qed

text \<open>
  With a step that is not positive the loop condition stays true: a call that returned
  would have started outside the condition. The induction is over the calls of the loop.
\<close>

lemma loop_diverges_aux:
  assumes "sequentialAnalysis_loop J cs vs m conf cur sz acc = Some y"
  shows "\<not> (js_le m (Fin 0) \<and> js_le sz cur \<and> (\<exists>n. cur = Fin n))"
proof (rule sequentialAnalysis_loop.raw_induct
    [where P = "\<lambda>J cs vs m conf cur sz acc y.
                  \<not> (js_le m (Fin 0) \<and> js_le sz cur \<and> (\<exists>n. cur = Fin n))",
     OF _ assms], goal_cases)
  case (1 loop J cs vs m conf cur sz acc y)
  show ?case
  proof
    assume a: "js_le m (Fin 0) \<and> js_le sz cur \<and> (\<exists>n. cur = Fin n)"
    then have next_le: "js_le (js_add sz m) cur"
      using js_le_add_nonpositive by blast
    from a 1(2) have "loop J cs vs m conf cur (js_add sz m)
           (acc @ [\<lparr>sampleSize = sz,
                     pValue' = pValue (analyzeResults J (slice0 cs sz) (slice0 vs sz) conf),
                     relativeImprovement' =
                       relativeImprovement (analyzeResults J (slice0 cs sz) (slice0 vs sz) conf)\<rparr>])
         = Some y"
      by (simp add: Let_def)
    from 1(1) [OF this] a next_le show False by blast
  qed
qed

section \<open>The validators\<close>


text \<open>
  The validator of the second module accepts the bounds themselves, and the sample size
  function of that module throws for no input.
\<close>

lemma validateInputs_statistics_at_bounds:
  "validateInputs_statistics (Fin (1 / 10)) (Fin (5 / 100)) (Fin 1) (Fin (8 / 10)) = None"
  by (simp add: validateInputs_statistics_def js_gt_def)

lemma calculateSampleSize_statistics_returns:
  "\<exists>n. calculateSampleSize_statistics rnd J baselineRate mde confidence power' = Inr n"
  by (simp add: calculateSampleSize_statistics_def Let_def)

section \<open>The sample size in exact and in rounded arithmetic\<close>

lemma rounded_exact [simp]: "rounded Fin a = a"
  by (cases a) simp_all







section \<open>The claims\<close>






text \<open>
  C3. For two sequences of the same length \<open>N\<close> and a checkpoint size that is a positive
  integer \<open>k\<close>, \<^verbatim>\<open>sequentialAnalysis\<close> returns, and what it returns are the \<open>\<lfloor>N / k\<rfloor>\<close>
  checkpoints at the sample sizes \<open>k, 2 k, 3 k, \<dots>\<close> in increasing order, each with the
  p-value and the relative improvement of \<^verbatim>\<open>analyzeResults\<close> on the prefixes of that length.
\<close>

theorem sequentialAnalysis_checkpoints:
  assumes "length controlData = N" "length variantData = N" "0 < k"
  shows "let r = map (\<lambda>j. checkpoint_at J controlData variantData confidence (j * k))
                   [1..<N div k + 1]
         in sequentialAnalysis J controlData variantData (Fin (real k)) confidence = Some r
          \<and> length r = nat \<lfloor>real N / real k\<rfloor>
          \<and> map sampleSize r = map (\<lambda>j. Fin (real (j * k))) [1..<N div k + 1]
          \<and> sorted_wrt js_lt (map sampleSize r)"
proof -
  have run: "sequentialAnalysis J controlData variantData (Fin (real k)) confidence
      = Some (map (\<lambda>j. checkpoint_at J controlData variantData confidence (j * k)) [1..<N div k + 1])"
    using loop_from [OF assms(3), of J controlData variantData confidence N 1 "[]"] assms(1,2)
    by (simp add: sequentialAnalysis_def)
  have len: "N div k = nat \<lfloor>real N / real k\<rfloor>"
    by (simp add: floor_divide_of_nat_eq)
  have sizes: "map sampleSize (map (\<lambda>j. checkpoint_at J controlData variantData confidence (j * k)) xs)
      = map (\<lambda>j. Fin (real (j * k))) xs" for xs
    by (simp add: checkpoint_at_def)
  have inc: "sorted_wrt js_lt (map (\<lambda>j. Fin (real (j * k))) [1..<N div k + 1])"
  proof -
    have "sorted_wrt (<) [1..<N div k + 1]" by (rule sorted_wrt_upt)
    then have "sorted_wrt (\<lambda>x y. js_lt (Fin (real (x * k))) (Fin (real (y * k)))) [1..<N div k + 1]"
      by (rule sorted_wrt_mono_rel [rotated]) (simp add: assms(3))
    then show ?thesis by (simp only: sorted_wrt_map)
  qed
  have cnt: "length [1..<N div k + 1] = N div k" by simp
  show ?thesis
    unfolding Let_def
  proof (intro conjI)
    show "sequentialAnalysis J controlData variantData (Fin (real k)) confidence
      = Some (map (\<lambda>j. checkpoint_at J controlData variantData confidence (j * k)) [1..<N div k + 1])"
      by (rule run)
    show "length (map (\<lambda>j. checkpoint_at J controlData variantData confidence (j * k)) [1..<N div k + 1])
      = nat \<lfloor>real N / real k\<rfloor>"
      by (simp only: length_map cnt) (rule len)
    show "map sampleSize (map (\<lambda>j. checkpoint_at J controlData variantData confidence (j * k)) [1..<N div k + 1])
      = map (\<lambda>j. Fin (real (j * k))) [1..<N div k + 1]"
      by (rule sizes)
    show "sorted_wrt js_lt
      (map sampleSize (map (\<lambda>j. checkpoint_at J controlData variantData confidence (j * k)) [1..<N div k + 1]))"
      by (simp only: sizes inc)
  qed
qed

text \<open>Five observations per arm and checkpoints of two: checkpoints at 2 and at 4.\<close>

theorem sequentialAnalysis_checkpoints_witness:
  "\<exists>r. sequentialAnalysis rational_jstat [Fin 1, Fin 0, Fin 0, Fin 1, Fin 0]
          [Fin 1, Fin 1, Fin 0, Fin 1, Fin 1] (Fin 2) (Fin (95 / 100)) = Some r
       \<and> length r = 2 \<and> map sampleSize r = [Fin 2, Fin 4]"
proof -
  have d: "(5::nat) div 2 + 1 = 3" by simp
  have u: "[Suc 0..<3] = [Suc 0, 2]" by (simp add: upt_rec)
  show ?thesis
    using sequentialAnalysis_checkpoints
      [of "[Fin 1, Fin 0, Fin 0, Fin 1, Fin 0]" 5 "[Fin 1, Fin 1, Fin 0, Fin 1, Fin 1]" 2
          rational_jstat "Fin (95 / 100)"]
    by (simp add: Let_def d u checkpoint_at_def)
qed

text \<open>
  C4, as the code has it. \<^verbatim>\<open>calculateSampleSize\<close> of \<^verbatim>\<open>src/utils/abTestingUtils.ts\<close>
  throws exactly when \<^verbatim>\<open>validateInputs\<close> reports a failure, and the error carries that
  message. So it throws whenever \<open>mde\<close> is zero, for every choice of the other
  parameters: with the message of the baseline rate where that is outside its bounds, and
  with the message of the minimum detectable effect otherwise. When \<^verbatim>\<open>validateInputs\<close>
  passes it throws nothing and returns \<^verbatim>\<open>Math.ceil\<close> of the formula
  \<^verbatim>\<open>2 * pPooled * (1 - pPooled) * (zAlpha + zBeta)^2 / (p2 - p1)^2\<close> as double arithmetic
  evaluates it, also when \<open>baselineRate * (1 + mde)\<close> is one or more, which is not among
  the checks. The \<^verbatim>\<open>calculateSampleSize\<close> of \<^verbatim>\<open>src/unnamed/part_000\<close> is that arithmetic
  alone: it returns the same number and throws for no input.
\<close>

theorem calculateSampleSize_raises:
  "(let zAlpha = normal_inv J (fl_sub rnd (Fin 1) (fl_div rnd (fl_sub rnd (Fin 1) c) (Fin 2)))
                   (Fin 0) (Fin 1);
        zBeta = normal_inv J p (Fin 0) (Fin 1);
        p1 = b;
        p2 = fl_mul rnd p1 (fl_add rnd (Fin 1) m);
        pPooled = fl_div rnd (fl_add rnd p1 p2) (Fin 2);
        formula =
          fl_div rnd
            (fl_mul rnd (fl_mul rnd (fl_mul rnd (Fin 2) pPooled) (fl_sub rnd (Fin 1) pPooled))
               (fl_pow2 rnd (fl_add rnd zAlpha zBeta)))
            (fl_pow2 rnd (fl_sub rnd p2 p1))
    in calculateSampleSize rnd J b m c p =
         (case validateInputs b m c p of
            Some message \<Rightarrow> Inl (Error message)
          | None \<Rightarrow> Inr (Math_ceil formula))
     \<and> calculateSampleSize_statistics rnd J b m c p = Inr (Math_ceil formula))
   \<and> validateInputs b (Fin 0) c p =
       Some (if js_le b (Fin 0) \<or> js_ge b (Fin 1)
             then ''Baseline rate must be between 0 and 1''
             else ''Minimum detectable effect must be between 0 and 1'')"
  by (simp add: calculateSampleSize_def calculateSampleSize_statistics_def validateInputs_def
      Let_def split: option.splits)

text \<open>
  C4 as stated fails at \<open>baselineRate = 0.9\<close>, \<open>mde = 0.5\<close>, \<open>confidence = 0.95\<close>,
  \<open>power = 0.9\<close>: the four parameters are within their bounds, the target rate is 1.35,
  and whatever the rounding and the library the call returns a number and throws
  nothing.
\<close>

theorem calculateSampleSize_raises_counterexample:
  "\<not> (\<exists>rnd J e. calculateSampleSize rnd J (Fin (9 / 10)) (Fin (1 / 2)) (Fin (95 / 100))
                  (Fin (9 / 10)) = Inl e)"
  by (simp add: calculateSampleSize_def validateInputs_def js_ge_def Let_def)

text \<open>
  C5, as the code has it. On two non-empty sequences of zeros and ones whose pooled rate is
  0 or 1 the z-score is \<^verbatim>\<open>0 / 0\<close>, so with a library that hands \<^verbatim>\<open>NaN\<close> on the p-value
  is \<^verbatim>\<open>NaN\<close>, for every confidence; and since no comparison with \<^verbatim>\<open>NaN\<close> holds, the
  result is not significant.
\<close>

theorem analyzeResults_degenerate:
  assumes "binary controlData" "controlData \<noteq> []" "binary variantData" "variantData \<noteq> []"
    and "pooledRate controlData variantData = 0 \<or> pooledRate controlData variantData = 1"
    and "cdf_propagates_NaN J"
  shows "pValue (analyzeResults J controlData variantData confidence) = NaN
       \<and> \<not> significant (analyzeResults J controlData variantData confidence)"
proof -
  have "standardError controlData variantData = 0"
    using assms(2,4,5) by (simp add: standardError_0_iff)
  with degenerate_zScore [OF assms(2,4)] assms(6) show ?thesis
    by (simp add: analyzeResults_binary [OF assms(1-4)] Let_def cdf_propagates_NaN_def js_sub_def)
qed

theorem analyzeResults_degenerate_witness:
  "pValue (analyzeResults rational_jstat [Fin 1, Fin 1] [Fin 1] (Fin (95 / 100))) = NaN
   \<and> \<not> significant (analyzeResults rational_jstat [Fin 1, Fin 1] [Fin 1] (Fin (95 / 100)))"
  using analyzeResults_degenerate [of "[Fin 1, Fin 1]" "[Fin 1]" rational_jstat "Fin (95 / 100)"]
    rational_cdf_propagates_NaN
  by (simp add: binary_def pooledRate_def successes_def)

text \<open>
  C5 as stated fails at one zero against one zero with confidence 0.95: no library that
  hands \<^verbatim>\<open>NaN\<close> on gives the p-value 1 there.
\<close>

theorem analyzeResults_degenerate_counterexample:
  "\<not> (\<exists>J. cdf_propagates_NaN J
        \<and> pValue (analyzeResults J [Fin 0] [Fin 0] (Fin (95 / 100))) = Fin 1)"
  by (simp add: analyzeResults_def Let_def reduce_sum_def js_length_def js_sub_def
      inf_of_sign_def cdf_propagates_NaN_def)

text \<open>
  C6, as the code has it. \<^verbatim>\<open>analyzeResults\<close> has no \<^verbatim>\<open>throw\<close>: on an empty sequence it
  returns a record, in which the rate of the empty arm is \<^verbatim>\<open>0 / 0\<close>. That \<^verbatim>\<open>NaN\<close>
  reaches the relative improvement and the z-score, so with a library that hands \<^verbatim>\<open>NaN\<close>
  on the p-value is \<^verbatim>\<open>NaN\<close> and the result is not significant.
\<close>

theorem analyzeResults_empty:
  assumes "controlData = [] \<or> variantData = []"
    and "cdf_propagates_NaN J"
  shows "let r = analyzeResults J controlData variantData confidence
         in relativeImprovement r = NaN \<and> pValue r = NaN \<and> \<not> significant r
          \<and> (controlData = [] \<longrightarrow> controlRate r = NaN)
          \<and> (variantData = [] \<longrightarrow> variantRate r = NaN)"
proof -
  have e: "js_div (reduce_sum []) (js_length []) = NaN"
    by (simp add: reduce_sum_def js_length_def inf_of_sign_def)
  from assms(1) show ?thesis
  proof
    assume "controlData = []"
    with assms(2) show ?thesis
      by (simp add: analyzeResults_def Let_def e cdf_propagates_NaN_def)
  next
    assume "variantData = []"
    with assms(2) show ?thesis
      by (simp add: analyzeResults_def Let_def e cdf_propagates_NaN_def)
  qed
qed

theorem analyzeResults_empty_witness:
  "relativeImprovement (analyzeResults rational_jstat [] [Fin 1] (Fin (95 / 100))) = NaN
   \<and> pValue (analyzeResults rational_jstat [] [Fin 1] (Fin (95 / 100))) = NaN
   \<and> \<not> significant (analyzeResults rational_jstat [] [Fin 1] (Fin (95 / 100)))
   \<and> controlRate (analyzeResults rational_jstat [] [Fin 1] (Fin (95 / 100))) = NaN"
  using analyzeResults_empty [of "[]" "[Fin 1]" rational_jstat "Fin (95 / 100)"]
    rational_cdf_propagates_NaN
  by (simp add: Let_def)

text \<open>
  C6 as stated fails at an empty control arm against the one observation 1: whatever the
  library, the call returns a record whose control rate and relative improvement are
  \<^verbatim>\<open>NaN\<close>.
\<close>

theorem analyzeResults_empty_counterexample:
  "\<forall>J. controlRate (analyzeResults J [] [Fin 1] (Fin (95 / 100))) = NaN
      \<and> relativeImprovement (analyzeResults J [] [Fin 1] (Fin (95 / 100))) = NaN"
  by (simp add: analyzeResults_def Let_def reduce_sum_def js_length_def js_sub_def inf_of_sign_def)

text \<open>
  C7. A checkpoint size of zero or less should make \<^verbatim>\<open>sequentialAnalysis\<close> fail at once.
  The code has no such check: for every step \<^verbatim>\<open><= 0\<close> (zero, a negative number or
  \<^verbatim>\<open>-Infinity\<close>) and all data the loop condition never becomes false, so the call does
  not return.
\<close>

theorem sequentialAnalysis_nonpositive_diverges:
  assumes "js_le minSampleSize (Fin 0)"
  shows "sequentialAnalysis J controlData variantData minSampleSize confidence = None"
proof (rule ccontr)
  assume "sequentialAnalysis J controlData variantData minSampleSize confidence \<noteq> None"
  then obtain y where y: "sequentialAnalysis_loop J controlData variantData minSampleSize confidence
      (Fin (real (min (length controlData) (length variantData)))) minSampleSize [] = Some y"
    by (auto simp add: sequentialAnalysis_def)
  have "js_le minSampleSize (Fin (real (min (length controlData) (length variantData))))"
    using assms by (cases minSampleSize) auto
  with loop_diverges_aux [OF y] assms show False by blast
qed

text \<open>
  The component calls the monitor with \<^verbatim>\<open>Math.floor(sampleSize / 10)\<close>, which is zero
  for a sample size below ten.
\<close>

theorem sequentialAnalysis_nonpositive_diverges_witness:
  "sequentialAnalysis rational_jstat [Fin 1, Fin 0, Fin 0] [Fin 0, Fin 1, Fin 0] (Fin 0)
     (Fin (95 / 100)) = None"
  using sequentialAnalysis_nonpositive_diverges
      [of "Fin 0" rational_jstat "[Fin 1, Fin 0, Fin 0]" "[Fin 0, Fin 1, Fin 0]" "Fin (95 / 100)"]
  by simp

text \<open>
  C8, as the code has it. On finite numbers \<^verbatim>\<open>validateInputs\<close> checks, in this order,
  that the baseline rate and the minimum detectable effect lie strictly between 0 and 1
  and the confidence and the power strictly between 0.8 and 1, and returns the message of
  the first check that fails, or no failure. So \<^verbatim>\<open>validateInputs(0.1, 0.05, 0.95, 0.8)\<close>
  returns the failure of the power, which is at its excluded lower bound,
  \<^verbatim>\<open>validateInputs(0.1, 0.05, 0.95, 0.9)\<close> returns no failure, and
  \<^verbatim>\<open>validateInputs(0.1, 0.05, 1.0, 0.8)\<close> returns the failure of the confidence.
\<close>

theorem validateInputs_strict_bounds:
  "validateInputs (Fin b) (Fin m) (Fin c) (Fin p) =
     (if \<not> (0 < b \<and> b < 1) then Some ''Baseline rate must be between 0 and 1''
      else if \<not> (0 < m \<and> m < 1) then Some ''Minimum detectable effect must be between 0 and 1''
      else if \<not> (8 / 10 < c \<and> c < 1) then Some ''Confidence level must be between 0.8 and 1''
      else if \<not> (8 / 10 < p \<and> p < 1) then Some ''Statistical power must be between 0.8 and 1''
      else None)
   \<and> validateInputs (Fin (1 / 10)) (Fin (5 / 100)) (Fin (95 / 100)) (Fin (8 / 10))
       = Some ''Statistical power must be between 0.8 and 1''
   \<and> validateInputs (Fin (1 / 10)) (Fin (5 / 100)) (Fin (95 / 100)) (Fin (9 / 10)) = None
   \<and> validateInputs (Fin (1 / 10)) (Fin (5 / 100)) (Fin 1) (Fin (8 / 10))
       = Some ''Confidence level must be between 0.8 and 1''"
  by (auto simp add: validateInputs_def js_ge_def)

text \<open>
  C8 as stated fails at its own first example: with the power at 0.8 the call
  \<^verbatim>\<open>validateInputs(0.1, 0.05, 0.95, 0.8)\<close> returns a failure.
\<close>

theorem validateInputs_strict_bounds_counterexample:
  "validateInputs (Fin (1 / 10)) (Fin (5 / 100)) (Fin (95 / 100)) (Fin (8 / 10)) \<noteq> None"
  by (simp add: validateInputs_def js_ge_def)

text \<open>
  C9. On two non-empty sequences of zeros and ones and a confidence level strictly between
  0 and 1, the two intervals \<^verbatim>\<open>analyzeResults\<close> returns are the unpooled Wald intervals
  \<open>[rate - z sqrt (rate (1 - rate) / n), rate + z sqrt (rate (1 - rate) / n)]\<close> with \<open>z\<close>
  the library's quantile at \<open>1 - (1 - confidence) / 2\<close>, and each holds the rate of its
  arm between its ends. The library is taken to compute a real quantile function that is
  positive above one half.
\<close>

theorem analyzeResults_wald_intervals:
  assumes "binary controlData" "controlData \<noteq> []" "binary variantData" "variantData \<noteq> []"
    and "0 < confidence" "confidence < 1"
    and "quantile_function J Q"
    and "\<forall>q. 1 / 2 < q \<and> q < 1 \<longrightarrow> 0 < Q q"
  shows "let r = analyzeResults J controlData variantData (Fin confidence);
             z = Q (1 - (1 - confidence) / 2);
             c = rate controlData; v = rate variantData;
             hc = z * sqrt (c * (1 - c) / real (length controlData));
             hv = z * sqrt (v * (1 - v) / real (length variantData))
         in control (confidenceIntervals r) = [Fin (c - hc), Fin (c + hc)]
          \<and> c - hc \<le> c \<and> c \<le> c + hc
          \<and> variant (confidenceIntervals r) = [Fin (v - hv), Fin (v + hv)]
          \<and> v - hv \<le> v \<and> v \<le> v + hv"
proof -
  define z where "z = Q (1 - (1 - confidence) / 2)"
  have arg: "0 < 1 - (1 - confidence) / 2" "1 - (1 - confidence) / 2 < 1"
    "1 / 2 < 1 - (1 - confidence) / 2"
    using assms(5,6) by simp_all
  have inv: "normal_inv J (Fin (1 - (1 - confidence) / 2)) (Fin 0) (Fin 1) = Fin z"
    using assms(7) arg by (simp add: quantile_function_def z_def)
  have zpos: "0 \<le> z" using assms(8) arg by (simp add: z_def less_imp_le)
  have hc: "0 \<le> z * sqrt (rate controlData * (1 - rate controlData) / real (length controlData))"
    using zpos rate_variance_nonneg [OF assms(2)] by simp
  have hv: "0 \<le> z * sqrt (rate variantData * (1 - rate variantData) / real (length variantData))"
    using zpos rate_variance_nonneg [OF assms(4)] by simp
  show ?thesis
    using inv hc hv
    by (simp add: analyzeResults_binary [OF assms(1-4)] Let_def js_sub_def z_def)
qed

text \<open>
  Two ones against two zeros and two ones, at confidence 0.95: the quantile of the
  computable instance is 19, the control interval is the point 1, and the variant
  interval is \<open>1/2\<close> plus and minus \<open>19/4\<close>.
\<close>

theorem analyzeResults_wald_intervals_witness:
  "control (confidenceIntervals
      (analyzeResults rational_jstat [Fin 1, Fin 1] [Fin 0, Fin 1, Fin 0, Fin 1] (Fin (95 / 100))))
     = [Fin 1, Fin 1]
   \<and> variant (confidenceIntervals
      (analyzeResults rational_jstat [Fin 1, Fin 1] [Fin 0, Fin 1, Fin 0, Fin 1] (Fin (95 / 100))))
     = [Fin (- (17 / 4)), Fin (21 / 4)]"
  using analyzeResults_wald_intervals
      [of "[Fin 1, Fin 1]" "[Fin 0, Fin 1, Fin 0, Fin 1]" "95 / 100" rational_jstat rational_quantile]
    rational_quantile_function rational_quantile_pos
  by (simp add: Let_def binary_def successes_def rate_def rational_quantile_def sqrt_sixteenth)

text \<open>
  C10. Exchanging the control and the variant argument of \<^verbatim>\<open>analyzeResults\<close> changes
  neither the p-value nor the significance: the pooled rate and the standard error are
  symmetric in the two arms, the z-score changes its sign only, and the p-value takes its
  absolute value. This holds for all arrays and every confidence, in particular for
  non-empty sequences of zeros and ones.
\<close>

theorem analyzeResults_swap:
  "pValue (analyzeResults J variantData controlData confidence)
     = pValue (analyzeResults J controlData variantData confidence)
   \<and> significant (analyzeResults J variantData controlData confidence)
     = significant (analyzeResults J controlData variantData confidence)"
proof -
  define C where "C = js_div (reduce_sum controlData) (js_length controlData)"
  define V where "V = js_div (reduce_sum variantData) (js_length variantData)"
  have "Math_abs (js_div (js_sub C V) se) = Math_abs (js_div (js_sub V C) se)" for se
    by (metis js_neg_sub js_div_neg Math_abs_neg)
  then show ?thesis
    unfolding analyzeResults_def Let_def C_def V_def
    by (simp add: js_add_commute)
qed

end
